theory Spec2Isabelle
  imports Main "HOL-Library.Sublist"
begin

section \<open>Python values used by create-minecraft-server.py\<close>

text \<open>
  A Python \<open>str\<close> is modelled as a \<open>string\<close> whose characters are the code points
  below 256. The program's log lines carry colour codes, a timestamp and pictographs;
  the model keeps each log call as a constructor of an event datatype instead, with
  the interpolated values as arguments.
\<close>

subsection \<open>Integers and the float product of \<open>run_server\<close>\<close>

text \<open>\<open>str(n)\<close> for a non-negative int: the decimal digits, most significant first.\<close>

definition digit_char :: "nat \<Rightarrow> char" where
  "digit_char d = ''0123456789'' ! d"

function py_str :: "nat \<Rightarrow> string" where
  "py_str n = (if n < 10 then [digit_char n] else py_str (n div 10) @ [digit_char (n mod 10)])"
  by pat_completeness auto
termination
  by (relation "measure id") auto

declare py_str.simps [simp del]

text \<open>\<open>int.bit_length()\<close>: the number of binary digits of a non-negative int.\<close>

function bit_length :: "nat \<Rightarrow> nat" where
  "bit_length n = (if n = 0 then 0 else Suc (bit_length (n div 2)))"
  by pat_completeness auto
termination
  by (relation "measure id") auto

declare bit_length.simps [simp del]

text \<open>
  A non-negative finite double is a natural number with at most 53 significant bits,
  scaled by a power of two. \<open>round53 p\<close> rounds the natural number \<open>p\<close> to 53
  significant bits, ties to even, which is what IEEE 754 binary64 arithmetic (the
  Python \<open>float\<close>) does to an exact result; scaling by a power of two commutes with
  it as long as the result is neither subnormal nor infinite.
\<close>

definition round53 :: "nat \<Rightarrow> nat" where
  "round53 p =
     (if bit_length p \<le> 53 then p
      else let s = bit_length p - 53;
               q = p div 2 ^ s;
               r = p mod 2 ^ s;
               h = 2 ^ (s - 1)
           in (if h < r \<or> (r = h \<and> odd q) then q + 1 else q) * 2 ^ s)"

text \<open>
  The literal \<open>0.8\<close> is the double nearest to 4/5, which is
  \<open>7205759403792794 / 2 ^ 53\<close>.
\<close>

definition float_0_8_num :: nat where
  "float_0_8_num = 7205759403792794"

text \<open>
  \<open>total_memory * 0.8\<close>: the int is converted to a double (rounded when it has more
  than 53 bits), the exact product with the double \<open>0.8\<close> is rounded to a double. The
  result is returned as its numerator over \<open>2 ^ 53\<close>. The \<open>OverflowError\<close> of an
  int beyond the range of a double, \<open>2 ^ 1024\<close> gigabytes and more, is left out.
\<close>

definition mul_float_0_8 :: "nat \<Rightarrow> nat" where
  "mul_float_0_8 n = round53 (round53 n * float_0_8_num)"

text \<open>\<open>int(x)\<close> for a non-negative double given by its numerator over \<open>2 ^ 53\<close>.\<close>

definition py_int_of_float :: "nat \<Rightarrow> nat" where
  "py_int_of_float x = x div 2 ^ 53"

text \<open>
  Lines 342-343 of \<open>run_server\<close>:
  \<^verbatim>\<open>total_memory = psutil.virtual_memory().total // (1024 ** 3)\<close>
  \<^verbatim>\<open>allocated_memory = int(total_memory * 0.8)\<close>
  The argument is \<open>psutil.virtual_memory().total\<close>, in bytes.
\<close>

definition total_memory :: "nat \<Rightarrow> nat" where
  "total_memory total_bytes = total_bytes div 1024 ^ 3"

definition allocated_memory :: "nat \<Rightarrow> nat" where
  "allocated_memory total_bytes = py_int_of_float (mul_float_0_8 (total_memory total_bytes))"

text \<open>Lines 346-368: the flags and the command of the server process.\<close>

definition java_flags :: "nat \<Rightarrow> string list" where
  "java_flags total_bytes =
     [''-Xms1G'', ''-Xmx'' @ py_str (allocated_memory total_bytes) @ ''G'',
      ''-XX:+UseG1GC'',
      ''-XX:+ParallelRefProcEnabled'',
      ''-XX:MaxGCPauseMillis=200'',
      ''-XX:+UnlockExperimentalVMOptions'',
      ''-XX:+DisableExplicitGC'',
      ''-XX:+AlwaysPreTouch'',
      ''-XX:G1NewSizePercent=30'',
      ''-XX:G1MaxNewSizePercent=40'',
      ''-XX:G1HeapRegionSize=8M'',
      ''-XX:G1ReservePercent=20'',
      ''-XX:G1HeapWastePercent=5'',
      ''-XX:G1MixedGCCountTarget=4'',
      ''-XX:InitiatingHeapOccupancyPercent=15'',
      ''-XX:G1MixedGCLiveThresholdPercent=90'',
      ''-XX:G1RSetUpdatingPauseTimePercent=5'',
      ''-XX:SurvivorRatio=32'',
      ''-XX:+PerfDisableSharedMem'',
      ''-XX:MaxTenuringThreshold=1'']"

definition java_command :: "nat \<Rightarrow> string list" where
  "java_command total_bytes = [''java''] @ java_flags total_bytes @ [''-jar'', ''server.jar'', ''nogui'']"

subsection \<open>Strings\<close>

text \<open>\<open>sub in s\<close>: \<open>sub\<close> occurs in \<open>s\<close> as a contiguous run of characters.\<close>

fun py_in :: "string \<Rightarrow> string \<Rightarrow> bool" where
  "py_in sub [] = (sub = [])"
| "py_in sub (c # cs) = (prefix sub (c # cs) \<or> py_in sub cs)"

text \<open>
  \<open>str.isspace\<close> on one character below 256: tab to carriage return, the four
  separators 28 to 31, the space, NEL (133) and the no-break space (160).
\<close>

definition py_isspace :: "char \<Rightarrow> bool" where
  "py_isspace c =
     (let n = (of_char c :: nat)
      in (9 \<le> n \<and> n \<le> 13) \<or> (28 \<le> n \<and> n \<le> 32) \<or> n = 133 \<or> n = 160)"

text \<open>
  \<open>str.lower\<close> on one character below 256: the letters A to Z and the Latin-1
  capitals (192 to 222, the multiplication sign 215 left out) move up by 32.
\<close>

definition lower_char :: "char \<Rightarrow> char" where
  "lower_char c =
     (let n = (of_char c :: nat)
      in if (65 \<le> n \<and> n \<le> 90) \<or> (192 \<le> n \<and> n \<le> 214) \<or> (216 \<le> n \<and> n \<le> 222)
         then char_of (n + 32) else c)"

definition py_lower :: "string \<Rightarrow> string" where
  "py_lower s = map lower_char s"

text \<open>\<open>s.strip()\<close>: whitespace removed at both ends.\<close>

definition py_strip :: "string \<Rightarrow> string" where
  "py_strip s = rev (dropWhile py_isspace (rev (dropWhile py_isspace s)))"

text \<open>\<open>s.split()\<close>: the maximal runs of characters that are not whitespace.\<close>

function py_split :: "string \<Rightarrow> string list" where
  "py_split [] = []"
| "py_split (c # cs) =
     (if py_isspace c then py_split cs
      else (c # takeWhile (\<lambda>x. \<not> py_isspace x) cs) # py_split (dropWhile (\<lambda>x. \<not> py_isspace x) cs))"
  by pat_completeness auto
termination
  by (relation "measure length") (auto simp: less_Suc_eq_le length_dropWhile_le)

text \<open>
  \<open>s.replace(old, new)\<close>: every occurrence of \<open>old\<close>, found from the left and not
  overlapping, becomes \<open>new\<close>; an empty \<open>old\<close> matches before every character and at
  the end.
\<close>

function py_replace :: "string \<Rightarrow> string \<Rightarrow> string \<Rightarrow> string" where
  "py_replace old new [] = (if old = [] then new else [])"
| "py_replace old new (c # cs) =
     (if old = [] then new @ c # py_replace old new cs
      else if prefix old (c # cs) then new @ py_replace old new (drop (length old) (c # cs))
      else c # py_replace old new cs)"
  by pat_completeness auto
termination
  by (relation "measure (\<lambda>(old, new, s). length s)") auto

subsection \<open>Exceptions and parsed JSON\<close>

datatype py_error =
  KeyError | IndexError | TypeError | AttributeError
  | ConnectionError | JSONDecodeError | OSError

text \<open>
  What \<open>response.json()\<close> returns. A dict is the list of its items; the keys of a
  parsed JSON object are strings, each at most once. A number is kept as an int: no
  operation used here looks at its value.
\<close>

datatype json =
  JNull | JBool bool | JNum int | JStr string
  | JArr "json list" | JObj "(string \<times> json) list"

text \<open>\<open>v[key]\<close> with a string key: only a dict holding the key answers.\<close>

fun getitem_key :: "json \<Rightarrow> string \<Rightarrow> py_error + json" where
  "getitem_key (JObj items) k = (case map_of items k of None \<Rightarrow> Inl KeyError | Some v \<Rightarrow> Inr v)"
| "getitem_key _ k = Inl TypeError"

text \<open>
  \<open>v[0]\<close>: the first element of a list or the first character of a string; a dict
  has no key \<open>0\<close>, the other values are not subscriptable.
\<close>

fun getitem_0 :: "json \<Rightarrow> py_error + json" where
  "getitem_0 (JArr []) = Inl IndexError"
| "getitem_0 (JArr (v # vs)) = Inr v"
| "getitem_0 (JStr []) = Inl IndexError"
| "getitem_0 (JStr (c # cs)) = Inr (JStr [c])"
| "getitem_0 (JObj items) = Inl KeyError"
| "getitem_0 _ = Inl TypeError"

text \<open>\<open>v.replace(old, new)\<close>: only a string has the method.\<close>

fun replace_method :: "json \<Rightarrow> string \<Rightarrow> string \<Rightarrow> py_error + string" where
  "replace_method (JStr s) old new = Inr (py_replace old new s)"
| "replace_method _ old new = Inl AttributeError"

section \<open>The tunnel services\<close>

subsection \<open>\<open>NgrokTunnel.start_tunnel.get_public_url\<close> (lines 61-71)\<close>

text \<open>
  What one \<open>requests.get\<close> followed by \<open>response.json()\<close> gives: the request
  raises, the body is not JSON, or the body parses.
\<close>

datatype http_reply = RequestRaises | BodyNotJson | BodyJson json

text \<open>
  The body of the \<open>try\<close>: the address that is logged, or the exception that the
  \<open>except Exception\<close> clause catches.
\<close>

definition poll_once :: "http_reply \<Rightarrow> py_error + string" where
  "poll_once reply =
     (case reply of
        RequestRaises \<Rightarrow> Inl ConnectionError
      | BodyNotJson \<Rightarrow> Inl JSONDecodeError
      | BodyJson data \<Rightarrow>
          (case getitem_key data ''tunnels'' of
             Inl e \<Rightarrow> Inl e
           | Inr tunnels \<Rightarrow>
               (case getitem_0 tunnels of
                  Inl e \<Rightarrow> Inl e
                | Inr tunnel \<Rightarrow>
                    (case getitem_key tunnel ''public_url'' of
                       Inl e \<Rightarrow> Inl e
                     | Inr url \<Rightarrow> replace_method url ''tcp://'' ''''))))"

text \<open>
  The \<open>while True\<close> loop. \<open>replies i\<close> is the reply to request number \<open>i\<close>;
  the loop started at request \<open>i\<close> returns the number of the request that succeeded
  (one \<open>time.sleep(1)\<close> follows each request before it) with the address it logs, and
  has no value when every request fails.
\<close>

partial_function (option) get_public_url :: "(nat \<Rightarrow> http_reply) \<Rightarrow> nat \<Rightarrow> (nat \<times> string) option" where
  "get_public_url replies i =
     (case poll_once (replies i) of
        Inr public_url \<Rightarrow> Some (i, public_url)
      | Inl e \<Rightarrow> get_public_url replies (Suc i))"

declare get_public_url.simps [code]

subsection \<open>\<open>PlayitGGTunnel.start_tunnel.read_output\<close> (lines 88-94)\<close>

datatype playit_log = AgentConnected | AccessibleAt string

text \<open>\<open>xs[-1]\<close>: the last element, \<open>IndexError\<close> on an empty list.\<close>

definition getitem_last :: "'a list \<Rightarrow> py_error + 'a" where
  "getitem_last xs = (if xs = [] then Inl IndexError else Inr (last xs))"

text \<open>The body of the \<open>for\<close> loop on one line: what it logs, or the exception it raises.\<close>

definition read_output_line :: "string \<Rightarrow> py_error + playit_log list" where
  "read_output_line line =
     (if py_in ''agent connected'' (py_lower line) then Inr [AgentConnected]
      else if py_in ''tunnel ready'' (py_lower line) then
        (case getitem_last (py_split (py_strip line)) of
           Inl e \<Rightarrow> Inl e
         | Inr address \<Rightarrow> Inr [AccessibleAt address])
      else Inr [])"

text \<open>
  The loop over the lines of the tunnel's output, until the stream closes: the log,
  and the exception that ended the thread if one was raised.
\<close>

fun read_output :: "string list \<Rightarrow> playit_log list \<times> py_error option" where
  "read_output [] = ([], None)"
| "read_output (line # lines) =
     (case read_output_line line of
        Inl e \<Rightarrow> ([], Some e)
      | Inr logged \<Rightarrow> (let (rest, err) = read_output lines in (logged @ rest, err)))"

section \<open>The server\<close>

subsection \<open>\<open>run_server.monitor_server\<close> (lines 378-382)\<close>

datatype monitor_output = Print string | LogReady string

fun monitor_server :: "string \<Rightarrow> string list \<Rightarrow> monitor_output list" where
  "monitor_server server_name [] = []"
| "monitor_server server_name (line # lines) =
     Print (py_strip line)
       # (if py_in ''Done ('' line then [LogReady server_name] else [])
       @ monitor_server server_name lines"

section \<open>Processes, the operator and the host\<close>

text \<open>
  The calls of the main thread that reach outside the program are recorded in a
  trace, in the order in which they are made. A \<open>Popen\<close> carries the variable that
  receives the handle (\<open>tunnel_process\<close> or \<open>server_process\<close>) and the command.
\<close>

datatype process = Tunnel | Server

datatype thread = GetPublicUrl | ReadOutput | MonitorServer

datatype log =
  DirNotFound string
  | PortReleased nat | PortNotReleased nat
  | ConfigError
  | NoTunnelServices | NgrokDownloadLink | PlayitDownloadLink
  | NoNgrokToken | StartingNgrok | StartingPlayit
  | StartingServer | StoppingServer | TunnelStopped

datatype event =
  Log log
  | Chdir string
  | Run "string list"
  | RunShell string
  | OpenConfig
  | Prompt "string list"
  | Popen process "string list"
  | StartThread thread
  | Wait process
  | Terminate process

text \<open>How \<open>server_process.wait()\<close> ends.\<close>

datatype wait_result = Exits int | KeyboardInterrupt | WaitRaises py_error

text \<open>How \<open>run_server\<close> ends.\<close>

datatype outcome = Returned | Raised py_error

text \<open>
  What the host and the operator answer during one call of \<open>run_server\<close>.
\<close>

record world =
  dir_exists :: bool \<comment> \<open>\<open>os.path.exists(server_dir)\<close>\<close>
  fuser_raises :: bool \<comment> \<open>\<open>subprocess.run\<close> of \<open>fuser\<close> raises\<close>
  config_raises :: bool \<comment> \<open>opening or parsing \<open>server_config.json\<close> raises\<close>
  which_ngrok :: bool \<comment> \<open>\<open>which ngrok\<close> has return code 0\<close>
  which_playit :: bool \<comment> \<open>\<open>which playit\<close> has return code 0\<close>
  answer :: string \<comment> \<open>\<open>answer['tunnel_service']\<close> of the prompt\<close>
  ngrok_auth_token_env :: "string option" \<comment> \<open>\<open>os.getenv("NGROK_AUTH_TOKEN")\<close>\<close>
  memory_total :: nat \<comment> \<open>\<open>psutil.virtual_memory().total\<close>\<close>
  java_popen_raises :: bool \<comment> \<open>\<open>subprocess.Popen\<close> of \<open>java\<close> raises\<close>
  wait_ends :: wait_result \<comment> \<open>how \<open>server_process.wait()\<close> ends\<close>

subsection \<open>\<open>TunnelService\<close> and its two subclasses (lines 31-99)\<close>

datatype tunnel_class = NgrokTunnel_class | PlayitGGTunnel_class

text \<open>
  An instance: \<open>local_port\<close>, and for Ngrok \<open>auth_token\<close>, which is a string or
  \<open>None\<close>.
\<close>

datatype tunnel_service =
  NgrokTunnel nat "string option"
  | PlayitGGTunnel nat

definition default_auth_token :: string where
  "default_auth_token = ''2ntG1Do0RPAj8ozh2Bmdt5oc3tw_3L4tzn1UZfXFnFr8Kau2n''"

text \<open>
  \<open>NgrokTunnel.__init__\<close> (lines 39-41):
  \<^verbatim>\<open>self.auth_token = auth_token or os.getenv("NGROK_AUTH_TOKEN")\<close>
  The first argument is the environment variable, unset when \<open>None\<close>.
\<close>

definition NgrokTunnel_init :: "string option \<Rightarrow> nat \<Rightarrow> string \<Rightarrow> tunnel_service" where
  "NgrokTunnel_init env local_port auth_token =
     NgrokTunnel local_port (if auth_token \<noteq> [] then Some auth_token else env)"

text \<open>\<open>cls(local_port)\<close>: the other arguments take their defaults.\<close>

definition construct :: "string option \<Rightarrow> tunnel_class \<Rightarrow> nat \<Rightarrow> tunnel_service" where
  "construct env cls local_port =
     (case cls of
        NgrokTunnel_class \<Rightarrow> NgrokTunnel_init env local_port default_auth_token
      | PlayitGGTunnel_class \<Rightarrow> PlayitGGTunnel local_port)"

text \<open>
  \<open>start_tunnel\<close> (lines 43-76 and 79-99): the trace, and the handle returned
  (\<open>None\<close> when no process was started). \<open>not self.auth_token\<close> holds of
  \<open>None\<close> and of the empty string.
\<close>

definition start_tunnel :: "tunnel_service \<Rightarrow> event list \<times> process option" where
  "start_tunnel service =
     (case service of
        NgrokTunnel local_port None \<Rightarrow> ([Log NoNgrokToken], None)
      | NgrokTunnel local_port (Some auth_token) \<Rightarrow>
          (if auth_token = [] then ([Log NoNgrokToken], None)
           else ([Run [''ngrok'', ''config'', ''add-authtoken'', auth_token],
                  Log StartingNgrok,
                  Popen Tunnel [''ngrok'', ''tcp'', py_str local_port],
                  StartThread GetPublicUrl], Some Tunnel))
      | PlayitGGTunnel local_port \<Rightarrow>
          ([Log StartingPlayit,
            Popen Tunnel [''playit'', ''run''],
            StartThread ReadOutput], Some Tunnel))"

subsection \<open>\<open>release_port\<close> (lines 101-110)\<close>

definition release_port :: "world \<Rightarrow> nat \<Rightarrow> event list" where
  "release_port w port =
     RunShell (''fuser -k '' @ py_str port @ ''/tcp'')
       # (if fuser_raises w then [Log (PortNotReleased port)] else [Log (PortReleased port)])"

subsection \<open>\<open>get_available_tunnel_services\<close> and \<open>select_tunnel_service\<close> (lines 112-144)\<close>

definition get_available_tunnel_services :: "world \<Rightarrow> event list \<times> (string \<times> tunnel_class) list" where
  "get_available_tunnel_services w =
     ([Run [''which'', ''ngrok''], Run [''which'', ''playit'']],
      (if which_ngrok w then [(''Ngrok'', NgrokTunnel_class)] else [])
        @ (if which_playit w then [(''Playit.gg'', PlayitGGTunnel_class)] else []))"

definition select_tunnel_service :: "world \<Rightarrow> event list \<times> tunnel_service option" where
  "select_tunnel_service w =
     (let (probes, available_services) = get_available_tunnel_services w
      in if available_services = [] then
           (probes @ [Log NoTunnelServices, Log NgrokDownloadLink, Log PlayitDownloadLink], None)
         else
           (probes @ [Prompt (map fst available_services)],
            case map_of available_services (answer w) of
              None \<Rightarrow> None
            | Some selected_service \<Rightarrow> Some (construct (ngrok_auth_token_env w) selected_service 25565)))"

subsection \<open>\<open>run_server\<close> (lines 321-395)\<close>

text \<open>
  Lines 388-395: the \<open>try\<close> around \<open>server_process.wait()\<close>, its handler for
  \<open>KeyboardInterrupt\<close> and its \<open>finally\<close> clause. A \<open>Popen\<close> object is true, so
  \<open>if tunnel_process\<close> asks whether there is a handle.
\<close>

definition wait_for_server :: "wait_result \<Rightarrow> process option \<Rightarrow> event list \<times> outcome" where
  "wait_for_server ending tunnel_process =
     (let finally = (if tunnel_process \<noteq> None then [Terminate Tunnel, Log TunnelStopped] else [])
      in case ending of
           Exits status \<Rightarrow> (Wait Server # finally, Returned)
         | KeyboardInterrupt \<Rightarrow> (Wait Server # Log StoppingServer # finally, Returned)
         | WaitRaises e \<Rightarrow> (Wait Server # finally, Raised e))"

text \<open>
  Line 339:
  \<^verbatim>\<open>tunnel_process = tunnel_service.start_tunnel() if tunnel_service else None\<close>
\<close>

definition start_selected :: "tunnel_service option \<Rightarrow> event list \<times> process option" where
  "start_selected tunnel_service =
     (case tunnel_service of
        None \<Rightarrow> ([], None)
      | Some service \<Rightarrow> start_tunnel service)"

text \<open>
  Lines 339-395: what \<open>run_server\<close> does once \<open>select_tunnel_service\<close> has
  returned \<open>tunnel_service\<close>.
\<close>

definition run_selected :: "world \<Rightarrow> tunnel_service option \<Rightarrow> event list \<times> outcome" where
  "run_selected w tunnel_service =
     (let (starting, tunnel_process) = start_selected tunnel_service;
          launching = [Log StartingServer, Popen Server (java_command (memory_total w))]
      in if java_popen_raises w then (starting @ launching, Raised OSError)
         else
           let (waiting, ending) = wait_for_server (wait_ends w) tunnel_process
           in (starting @ launching @ StartThread MonitorServer # waiting, ending))"

definition run_server :: "string \<Rightarrow> world \<Rightarrow> event list \<times> outcome" where
  "run_server server_name w =
     (if \<not> dir_exists w then ([Log (DirNotFound server_name)], Returned)
      else
        let begun = Chdir server_name # release_port w 25565 @ [OpenConfig]
        in if config_raises w then (begun @ [Log ConfigError], Returned)
           else
             let (selecting, tunnel_service) = select_tunnel_service w;
                 (running, ending) = run_selected w tunnel_service
             in (begun @ selecting @ running, ending))"

subsection \<open>An example host\<close>

text \<open>
  A host with 16 GB on which both tunnel programs are installed; the operator picks
  Playit.gg and the server exits with status 0.
\<close>

definition example_world :: world where
  "example_world =
     \<lparr>dir_exists = True, fuser_raises = False, config_raises = False,
      which_ngrok = True, which_playit = True, answer = ''Playit.gg'',
      ngrok_auth_token_env = None, memory_total = 16 * 1024 ^ 3,
      java_popen_raises = False, wait_ends = Exits 0\<rparr>"

section \<open>The memory ceiling\<close>

lemma bit_length_le: "n < 2 ^ k \<Longrightarrow> bit_length n \<le> k"
proof (induction k arbitrary: n)
  case 0
  then show ?case by (simp add: bit_length.simps)
next
  case (Suc k)
  show ?case
  proof (cases "n = 0")
    case True
    then show ?thesis by (simp add: bit_length.simps)
  next
    case False
    from Suc.prems have "n div 2 < 2 ^ k" by simp
    then have "bit_length (n div 2) \<le> k" by (rule Suc.IH)
    with False show ?thesis by (subst bit_length.simps) simp
  qed
qed

lemma bit_length_less: "bit_length n \<le> k \<Longrightarrow> n < 2 ^ k"
proof (induction k arbitrary: n)
  case 0
  then show ?case by (cases "n = 0") (simp_all add: bit_length.simps)
next
  case (Suc k)
  show ?case
  proof (cases "n = 0")
    case True
    then show ?thesis by simp
  next
    case False
    with Suc.prems have "bit_length (n div 2) \<le> k"
      by (subst (asm) bit_length.simps) simp
    then have "n div 2 < 2 ^ k" by (rule Suc.IH)
    then show ?thesis by simp
  qed
qed

text \<open>A number of at most 53 bits is a double already.\<close>

lemma round53_exact: "p < 2 ^ 53 \<Longrightarrow> round53 p = p"
  by (simp add: round53_def bit_length_le)

text \<open>
  Otherwise \<open>s\<close> low bits are rounded away: the result is not below the number cut
  at bit \<open>s\<close>, and not more than half a unit of bit \<open>s\<close> above the number.
\<close>

lemma round53_near:
  assumes big: "\<not> p < 2 ^ 53" and bound: "p < 2 ^ (53 + t)"
  obtains s where "1 \<le> s" "s \<le> t" "(p div 2 ^ s) * 2 ^ s \<le> round53 p"
    "round53 p \<le> p + 2 ^ (s - 1)"
proof -
  define s where "s = bit_length p - 53"
  define q where "q = p div 2 ^ s"
  define r where "r = p mod 2 ^ s"
  from big have gt: "\<not> bit_length p \<le> 53" using bit_length_less by blast
  then have s1: "1 \<le> s" by (simp add: s_def)
  from bound have "bit_length p \<le> 53 + t" by (rule bit_length_le)
  then have st: "s \<le> t" by (simp add: s_def)
  have split: "p = q * 2 ^ s + r"
    unfolding q_def r_def by (rule div_mult_mod_eq [symmetric])
  have two: "(2::nat) ^ s = 2 * 2 ^ (s - 1)"
    using s1 by (cases s) simp_all
  have R: "round53 p = (if 2 ^ (s - 1) < r \<or> (r = 2 ^ (s - 1) \<and> odd q) then q + 1 else q) * 2 ^ s"
    using gt by (simp add: round53_def Let_def s_def q_def r_def)
  have lo: "q * 2 ^ s \<le> round53 p" by (simp add: R)
  have hi: "round53 p \<le> p + 2 ^ (s - 1)"
  proof (cases "2 ^ (s - 1) < r \<or> (r = 2 ^ (s - 1) \<and> odd q)")
    case True
    then have "round53 p = q * 2 ^ s + 2 ^ s" by (simp add: R)
    moreover from True have "2 ^ (s - 1) \<le> r" by auto
    ultimately show ?thesis using split two by linarith
  next
    case False
    then have "round53 p = q * 2 ^ s" using R by simp
    then show ?thesis using split by linarith
  qed
  from s1 st lo hi show thesis using that by (simp add: q_def)
qed

text \<open>
  The double \<open>0.8\<close> lies above 4/5 by \<open>2 / (5 * 2 ^ 53)\<close>. For a total below
  \<open>2 ^ 50\<close> gigabytes neither this excess nor the rounding of the product carries
  the result over the next integer, and the integer below is a double itself: the
  truncated float product is the integer quotient.
\<close>

lemma mul_float_0_8_floor:
  assumes n: "n < 2 ^ 50"
  shows "py_int_of_float (mul_float_0_8 n) = 4 * n div 5"
proof -
  define k where "k = 4 * n div 5"
  define p where "p = n * 7205759403792794"
  have k1: "5 * k \<le> 4 * n" and k2: "4 * n < 5 * k + 5"
    by (simp_all add: k_def)
  have n53: "n < 2 ^ 53" using n by (simp add: order_less_trans [OF n])
  have five: "5 * p = 4 * n * 2 ^ 53 + 2 * n" by (simp add: p_def)
  have lo_p: "k * 2 ^ 53 \<le> p" using five k1 by simp
  have hi_p: "5 * p + 5 * 2 ^ 49 < 5 * (Suc k * 2 ^ 53)"
    using five k2 n by simp
  have m: "mul_float_0_8 n = round53 p"
    by (simp add: mul_float_0_8_def round53_exact [OF n53] float_0_8_num_def p_def)
  have lo: "k * 2 ^ 53 \<le> round53 p" and hi: "round53 p < Suc k * 2 ^ 53"
  proof (atomize (full), cases "p < 2 ^ 53")
    case True
    then have "round53 p = p" by (rule round53_exact)
    with lo_p hi_p show "k * 2 ^ 53 \<le> round53 p \<and> round53 p < Suc k * 2 ^ 53" by simp
  next
    case False
    have "p < 2 ^ 50 * 2 ^ 53"
      unfolding p_def using n by (intro mult_strict_mono) simp_all
    then have "p < 2 ^ (53 + 50)" by (simp add: power_add)
    with False obtain s where s: "1 \<le> s" "s \<le> 50"
      and near: "(p div 2 ^ s) * 2 ^ s \<le> round53 p" "round53 p \<le> p + 2 ^ (s - 1)"
      by (rule round53_near)
    have cut: "(2::nat) ^ 53 = 2 ^ (53 - s) * 2 ^ s"
      using s by (simp add: power_add [symmetric])
    then have "k * 2 ^ (53 - s) * 2 ^ s \<le> p" using lo_p by (simp add: mult.assoc)
    then have "k * 2 ^ (53 - s) \<le> p div 2 ^ s"
      by (simp add: less_eq_div_iff_mult_less_eq)
    then have "k * 2 ^ (53 - s) * 2 ^ s \<le> (p div 2 ^ s) * 2 ^ s"
      by (rule mult_le_mono1)
    with cut near(1) have lower: "k * 2 ^ 53 \<le> round53 p" by (simp add: mult.assoc)
    have "(2::nat) ^ (s - 1) \<le> 2 ^ 49"
      using s by (intro power_increasing) simp_all
    with near(2) have "round53 p \<le> p + 2 ^ 49" by linarith
    with hi_p have "round53 p < Suc k * 2 ^ 53" by linarith
    with lower show "k * 2 ^ 53 \<le> round53 p \<and> round53 p < Suc k * 2 ^ 53" by simp
  qed
  from lo hi have "round53 p div 2 ^ 53 = k"
    by (intro div_nat_eqI) (simp_all add: mult.commute)
  then show ?thesis by (simp add: m py_int_of_float_def k_def)
qed

lemma allocated_memory_floor:
  assumes "total_bytes < 2 ^ 80"
  shows "allocated_memory total_bytes = 4 * (total_bytes div 1024 ^ 3) div 5"
proof -
  from assms have "total_bytes < 2 ^ 50 * 1024 ^ 3" by simp
  then have "total_bytes div 1024 ^ 3 < 2 ^ 50"
    by (simp add: less_mult_imp_div_less)
  then show ?thesis
    by (simp only: allocated_memory_def total_memory_def mul_float_0_8_floor)
qed

lemmas allocated_memory_eval =
  allocated_memory_def total_memory_def py_int_of_float_def mul_float_0_8_def
  round53_def float_0_8_num_def bit_length.simps Let_def

text \<open>
  Claim C3, as amended. With a reported total of 16 GB (\<open>16 * 1024 ^ 3\<close> bytes)
  the gigabyte value of the \<open>-Xmx\<close> flag is 12, and with 10 GB it is 8. In
  general, for every total below \<open>2 ^ 80\<close> bytes, the value is 80% of the total
  counted in whole gigabytes (the byte count divided by \<open>1024 ^ 3\<close>, rounded
  down), rounded down to a whole number, and it is what the second flag of the
  command carries.
\<close>

theorem allocated_memory_80_percent:
  "allocated_memory (16 * 1024 ^ 3) = 12
   \<and> java_flags (16 * 1024 ^ 3) ! 1 = ''-Xmx12G''
   \<and> allocated_memory (10 * 1024 ^ 3) = 8
   \<and> java_flags (10 * 1024 ^ 3) ! 1 = ''-Xmx8G''
   \<and> (total_bytes < 2 ^ 80 \<longrightarrow>
        allocated_memory total_bytes = 80 * (total_bytes div 1024 ^ 3) div 100
        \<and> java_flags total_bytes ! 1 = ''-Xmx'' @ py_str (80 * (total_bytes div 1024 ^ 3) div 100) @ ''G'')"
proof -
  have a16: "allocated_memory (16 * 1024 ^ 3) = 12"
    by (simp add: allocated_memory_eval)
  have a10: "allocated_memory (10 * 1024 ^ 3) = 8"
    by (simp add: allocated_memory_eval)
  have f16: "java_flags (16 * 1024 ^ 3) ! 1 = ''-Xmx12G''"
    unfolding java_flags_def a16 by (simp add: py_str.simps digit_char_def)
  have f10: "java_flags (10 * 1024 ^ 3) ! 1 = ''-Xmx8G''"
    unfolding java_flags_def a10 by (simp add: py_str.simps digit_char_def)
  have percent: "80 * n div 100 = 4 * n div 5" for n :: nat
    using div_mult_mult1 [of 20 "4 * n" 5] by simp
  have general: "allocated_memory total_bytes = 80 * (total_bytes div 1024 ^ 3) div 100"
    if "total_bytes < 2 ^ 80"
    using that by (simp only: percent allocated_memory_floor)
  then have "java_flags total_bytes ! 1 = ''-Xmx'' @ py_str (80 * (total_bytes div 1024 ^ 3) div 100) @ ''G''"
    if "total_bytes < 2 ^ 80"
    using that by (simp add: java_flags_def)
  with a16 a10 f16 f10 general show ?thesis by blast
qed

text \<open>
  A host that reports 8267825152 bytes (7.7 gigabytes) counts as 7 whole gigabytes and
  gets \<open>-Xmx5G\<close>.
\<close>

theorem allocated_memory_80_percent_witness:
  "(8267825152::nat) < 2 ^ 80
   \<and> allocated_memory 8267825152 = 5
   \<and> java_flags 8267825152 ! 1 = ''-Xmx5G''"
  using allocated_memory_80_percent [of 8267825152]
  by (simp add: py_str.simps digit_char_def)

text \<open>
  Claim C3, as stated, fails: 80% of 6710886400 bytes (6.25 gigabytes) is 5 whole
  gigabytes, but the total is cut to 6 gigabytes first and the value computed is 4.
\<close>

theorem allocated_memory_cuts_total_first:
  "80 * 6710886400 div 100 div 1024 ^ 3 = (5::nat)
   \<and> allocated_memory 6710886400 = 4"
  by (simp add: allocated_memory_eval)

section \<open>The readiness notice of the server monitor\<close>

text \<open>
  Claim C2, as amended. The monitor keeps no readiness flag: it logs the ready notice
  once for every line that contains \<open>Done (\<close>. The number of notices is the number
  of such lines, so a stream with one such line gives exactly one notice and every
  further such line gives one more.
\<close>

theorem monitor_server_ready_count:
  "count_list (monitor_server server_name lines) (LogReady server_name) =
     length (filter (py_in ''Done ('') lines)"
  by (induction lines) simp_all

text \<open>
  Claim C2, as stated, fails: on a stream with two lines that contain \<open>Done (\<close> the
  ready notice is logged twice.
\<close>

theorem monitor_server_ready_twice:
  "py_in ''Done ('' ''Done (3.2s)! For help, type help\<newline>''
   \<and> count_list
        (monitor_server ''world''
           [''Done (3.2s)! For help, type help\<newline>'', ''Done (0.1s)! Reload complete\<newline>''])
        (LogReady ''world'') = 2"
  by simp

section \<open>The address found by the Ngrok polling task\<close>

lemma get_public_url_skips:
  assumes "\<forall>j. i \<le> j \<and> j < k \<longrightarrow> isl (poll_once (replies j))"
    and "poll_once (replies k) = Inr address" and "i \<le> k"
  shows "get_public_url replies i = Some (k, address)"
  using assms
proof (induction "k - i" arbitrary: i)
  case 0
  then have "i = k" by simp
  with 0 show ?case by (subst get_public_url.simps) simp
next
  case (Suc d)
  then have "i < k" by simp
  with Suc.prems have "isl (poll_once (replies i))" by simp
  then obtain e where e: "poll_once (replies i) = Inl e" by (auto simp: isl_def)
  have "get_public_url replies (Suc i) = Some (k, address)"
    using Suc.hyps Suc.prems \<open>i < k\<close> by (intro Suc.hyps(1)) auto
  with e show ?case by (subst get_public_url.simps) simp
qed

text \<open>
  Claim C4. When the requests before number \<open>k\<close> fail (the loop is still polling)
  and the reply to request \<open>k\<close> is the JSON
  \<open>{"tunnels":[{"public_url":"tcp://1.2.3.4:5555"}]}\<close>, the polling task logs the
  address \<open>1.2.3.4:5555\<close>, the public URL of the first tunnel without its
  \<open>tcp://\<close>, and the loop ends at that request.
\<close>

theorem get_public_url_publishes:
  assumes "\<forall>j<k. isl (poll_once (replies j))"
    and "replies k =
      BodyJson (JObj [(''tunnels'', JArr [JObj [(''public_url'', JStr ''tcp://1.2.3.4:5555'')]])])"
  shows "get_public_url replies 0 = Some (k, ''1.2.3.4:5555'')"
proof -
  from assms(2) have "poll_once (replies k) = Inr ''1.2.3.4:5555''"
    by (simp add: poll_once_def)
  with assms(1) show ?thesis by (intro get_public_url_skips) simp_all
qed

text \<open>
  The first request fails to connect, the second finds no tunnel yet, the third gets
  the reply of the claim.
\<close>

theorem get_public_url_publishes_witness:
  "get_public_url
     (\<lambda>i. if i = 0 then RequestRaises
          else if i = 1 then BodyJson (JObj [(''tunnels'', JArr [])])
          else BodyJson (JObj [(''tunnels'', JArr [JObj [(''public_url'', JStr ''tcp://1.2.3.4:5555'')]])]))
     0 = Some (2, ''1.2.3.4:5555'')"
proof -
  let ?replies = "\<lambda>i::nat. if i = 0 then RequestRaises
          else if i = 1 then BodyJson (JObj [(''tunnels'', JArr [])])
          else BodyJson (JObj [(''tunnels'', JArr [JObj [(''public_url'', JStr ''tcp://1.2.3.4:5555'')]])])"
  have failing: "\<forall>j<2. isl (poll_once (?replies j))"
    by (simp add: poll_once_def)
  have reply: "?replies 2 =
      BodyJson (JObj [(''tunnels'', JArr [JObj [(''public_url'', JStr ''tcp://1.2.3.4:5555'')]])])"
    by simp
  from get_public_url_publishes [of 2 ?replies, OF failing reply] show ?thesis .
qed

section \<open>The lines read from Playit.gg\<close>

lemma py_in_set: "py_in sub s \<Longrightarrow> set sub \<subseteq> set s"
proof (induction s)
  case Nil
  then show ?case by simp
next
  case (Cons c cs)
  from Cons.prems have "prefix sub (c # cs) \<or> py_in sub cs" by simp
  then show ?case
  proof
    assume "prefix sub (c # cs)"
    then show ?thesis by (rule set_mono_prefix)
  next
    assume "py_in sub cs"
    then have "set sub \<subseteq> set cs" by (rule Cons.IH)
    then show ?thesis by auto
  qed
qed

lemma py_in_map: "py_in sub s \<Longrightarrow> py_in (map f sub) (map f s)"
proof (induction s)
  case Nil
  then show ?case by simp
next
  case (Cons c cs)
  from Cons.prems have "prefix sub (c # cs) \<or> py_in sub cs" by simp
  then show ?case
  proof
    assume "prefix sub (c # cs)"
    then have "prefix (map f sub) (map f (c # cs))" by (rule map_mono_prefix)
    then show ?thesis by simp
  next
    assume "py_in sub cs"
    then have "py_in (map f sub) (map f cs)" by (rule Cons.IH)
    then show ?thesis by simp
  qed
qed

text \<open>A line that contains the text as written contains it after \<open>lower()\<close> too.\<close>

lemma tunnel_ready_lower:
  "py_in ''tunnel ready'' line \<Longrightarrow> py_in ''tunnel ready'' (py_lower line)"
  using py_in_map [of "''tunnel ready''" line lower_char]
  by (simp add: py_lower_def lower_char_def)

lemma lower_char_isspace: "py_isspace c \<Longrightarrow> lower_char c = c"
  by (auto simp: py_isspace_def lower_char_def Let_def)

lemma dropWhile_keeps: "x \<in> set xs \<Longrightarrow> \<not> P x \<Longrightarrow> x \<in> set (dropWhile P xs)"
  by (induction xs) auto

lemma py_strip_keeps: "x \<in> set s \<Longrightarrow> \<not> py_isspace x \<Longrightarrow> x \<in> set (py_strip s)"
  by (simp add: py_strip_def dropWhile_keeps)

lemma py_split_nonempty: "x \<in> set s \<Longrightarrow> \<not> py_isspace x \<Longrightarrow> py_split s \<noteq> []"
  by (induction s rule: py_split.induct) auto

text \<open>
  The \<open>IndexError\<close> of \<open>split()[-1]\<close> cannot happen in the \<open>elif\<close> branch: the
  line holds a letter \<open>t\<close>, in either case, so it has a token.
\<close>

lemma tunnel_ready_has_token:
  assumes "py_in ''tunnel ready'' (py_lower line)"
  shows "py_split (py_strip line) \<noteq> []"
proof -
  from assms have "set ''tunnel ready'' \<subseteq> set (py_lower line)" by (rule py_in_set)
  then have "CHR ''t'' \<in> set (py_lower line)" by simp
  then obtain c where c: "c \<in> set line" "lower_char c = CHR ''t''"
    by (auto simp: py_lower_def)
  have letter: "\<not> py_isspace c"
  proof
    assume sp: "py_isspace c"
    then have "c = CHR ''t''" using c(2) lower_char_isspace by simp
    with sp show False by (simp add: py_isspace_def)
  qed
  with c(1) have "c \<in> set (py_strip line)" by (rule py_strip_keeps)
  then show ?thesis using letter by (rule py_split_nonempty)
qed

lemmas read_output_line_eval =
  read_output_line_def getitem_last_def py_lower_def lower_char_def py_strip_def py_isspace_def

text \<open>
  Claim C5, as amended. The line \<open>tunnel ready 1.2.3.4:5555\<close> makes the reader log
  the address \<open>1.2.3.4:5555\<close>. In general, for every line that contains
  \<open>tunnel ready\<close> and does not contain \<open>agent connected\<close> (both looked for in the
  lower-cased line), the stripped line has a token and the reader logs the last
  whitespace-delimited token of the stripped line as the address.
\<close>

theorem read_output_tunnel_ready:
  "read_output_line ''tunnel ready 1.2.3.4:5555'' = Inr [AccessibleAt ''1.2.3.4:5555'']
   \<and> (py_in ''tunnel ready'' (py_lower line) \<and> \<not> py_in ''agent connected'' (py_lower line) \<longrightarrow>
        py_split (py_strip line) \<noteq> []
        \<and> read_output_line line = Inr [AccessibleAt (last (py_split (py_strip line)))])"
proof -
  have "read_output_line ''tunnel ready 1.2.3.4:5555'' = Inr [AccessibleAt ''1.2.3.4:5555'']"
    by (simp add: read_output_line_eval)
  moreover have "py_split (py_strip line) \<noteq> []
        \<and> read_output_line line = Inr [AccessibleAt (last (py_split (py_strip line)))]"
    if "py_in ''tunnel ready'' (py_lower line)" "\<not> py_in ''agent connected'' (py_lower line)"
    using that tunnel_ready_has_token [OF that(1)]
    by (simp add: read_output_line_def getitem_last_def)
  ultimately show ?thesis by blast
qed

theorem read_output_tunnel_ready_witness:
  "py_in ''tunnel ready'' (py_lower ''  INFO Tunnel Ready at  5.6.7.8:25565 \<newline>'')
   \<and> \<not> py_in ''agent connected'' (py_lower ''  INFO Tunnel Ready at  5.6.7.8:25565 \<newline>'')
   \<and> read_output_line ''  INFO Tunnel Ready at  5.6.7.8:25565 \<newline>'' = Inr [AccessibleAt ''5.6.7.8:25565'']"
proof -
  have found: "py_in ''tunnel ready'' (py_lower ''  INFO Tunnel Ready at  5.6.7.8:25565 \<newline>'')"
    by code_simp
  have absent: "\<not> py_in ''agent connected'' (py_lower ''  INFO Tunnel Ready at  5.6.7.8:25565 \<newline>'')"
    by code_simp
  have token: "last (py_split (py_strip ''  INFO Tunnel Ready at  5.6.7.8:25565 \<newline>'')) = ''5.6.7.8:25565''"
    by (simp add: py_strip_def py_isspace_def)
  from read_output_tunnel_ready [of "''  INFO Tunnel Ready at  5.6.7.8:25565 \<newline>''"] found absent
  have "read_output_line ''  INFO Tunnel Ready at  5.6.7.8:25565 \<newline>''
      = Inr [AccessibleAt (last (py_split (py_strip ''  INFO Tunnel Ready at  5.6.7.8:25565 \<newline>'')))]"
    by blast
  with found absent token show ?thesis by simp
qed

text \<open>
  Claim C5, as stated, fails: this line contains \<open>tunnel ready\<close> and its last token
  is \<open>1.2.3.4:5555\<close>, but the reader logs the agent notice and no address.
\<close>

theorem read_output_tunnel_ready_shadowed:
  "py_in ''tunnel ready'' ''agent connected, tunnel ready 1.2.3.4:5555\<newline>''
   \<and> last (py_split (py_strip ''agent connected, tunnel ready 1.2.3.4:5555\<newline>'')) = ''1.2.3.4:5555''
   \<and> read_output_line ''agent connected, tunnel ready 1.2.3.4:5555\<newline>'' = Inr [AgentConnected]"
  by (simp add: read_output_line_eval)

text \<open>
  Claim C9. For every line that contains both \<open>agent connected\<close> and
  \<open>tunnel ready\<close>, in any letter case, the reader logs the agent notice only: no
  address is logged from that line, by the single line or by the loop.
\<close>

theorem read_output_agent_connected_wins:
  assumes "py_in ''agent connected'' (py_lower line)"
    and "py_in ''tunnel ready'' (py_lower line)"
  shows "read_output_line line = Inr [AgentConnected]
       \<and> read_output [line] = ([AgentConnected], None)
       \<and> AccessibleAt address \<notin> set (fst (read_output [line]))"
  using assms by (simp add: read_output_line_def)

theorem read_output_agent_connected_wins_witness:
  "py_in ''agent connected'' (py_lower ''Agent Connected - Tunnel Ready 1.2.3.4:5555\<newline>'')
   \<and> py_in ''tunnel ready'' (py_lower ''Agent Connected - Tunnel Ready 1.2.3.4:5555\<newline>'')
   \<and> read_output [''Agent Connected - Tunnel Ready 1.2.3.4:5555\<newline>''] = ([AgentConnected], None)
   \<and> AccessibleAt ''1.2.3.4:5555'' \<notin> set (fst (read_output [''Agent Connected - Tunnel Ready 1.2.3.4:5555\<newline>'']))"
proof -
  have agent: "py_in ''agent connected'' (py_lower ''Agent Connected - Tunnel Ready 1.2.3.4:5555\<newline>'')"
    by code_simp
  have ready: "py_in ''tunnel ready'' (py_lower ''Agent Connected - Tunnel Ready 1.2.3.4:5555\<newline>'')"
    by code_simp
  from read_output_agent_connected_wins [OF agent ready, of "''1.2.3.4:5555''"] agent ready
  show ?thesis by blast
qed

section \<open>The calls made by \<open>run_server\<close>\<close>

text \<open>Which process calls each part of \<open>run_server\<close> can make.\<close>

lemma release_port_calls:
  "Popen p cmd \<notin> set (release_port w port)"
  "Wait p \<notin> set (release_port w port)"
  "Terminate p \<notin> set (release_port w port)"
  by (simp_all add: release_port_def)

lemma select_tunnel_service_calls:
  "Popen p cmd \<notin> set (fst (select_tunnel_service w))"
  "Wait p \<notin> set (fst (select_tunnel_service w))"
  "Terminate p \<notin> set (fst (select_tunnel_service w))"
  by (simp_all add: select_tunnel_service_def get_available_tunnel_services_def)

lemma start_tunnel_calls:
  "Popen Server cmd \<notin> set (fst (start_tunnel service))"
  "Wait p \<notin> set (fst (start_tunnel service))"
  "Terminate p \<notin> set (fst (start_tunnel service))"
  by (simp_all add: start_tunnel_def split: tunnel_service.split option.split)

lemma start_selected_calls:
  "Popen Server cmd \<notin> set (fst (start_selected ts))"
  "Wait p \<notin> set (fst (start_selected ts))"
  "Terminate p \<notin> set (fst (start_selected ts))"
  by (cases ts; simp add: start_selected_def start_tunnel_calls)+

text \<open>A tunnel process is started exactly when a handle comes back.\<close>

lemma start_selected_handle:
  "(\<exists>cmd. Popen Tunnel cmd \<in> set (fst (start_selected ts))) \<longleftrightarrow> snd (start_selected ts) \<noteq> None"
  by (auto simp: start_selected_def start_tunnel_def split: option.splits tunnel_service.splits)

lemma wait_for_server_trace:
  "\<exists>after. fst (wait_for_server ending tunnel_process) = Wait Server # after
     \<and> count_list after (Terminate Tunnel) = (if tunnel_process = None then 0 else 1)"
  by (cases ending) (simp_all add: wait_for_server_def)

lemma wait_for_server_calls:
  "Popen p cmd \<notin> set (fst (wait_for_server ending tunnel_process))"
  by (cases ending) (simp_all add: wait_for_server_def)

lemma wait_for_server_outcome:
  "snd (wait_for_server ending tunnel_process) =
     (case ending of WaitRaises e \<Rightarrow> Raised e | _ \<Rightarrow> Returned)"
  by (cases ending) (simp_all add: wait_for_server_def)

text \<open>The two definitions with their \<open>let\<close>s resolved.\<close>

lemma run_selected_eq:
  "run_selected w ts =
     (if java_popen_raises w
      then (fst (start_selected ts) @ [Log StartingServer, Popen Server (java_command (memory_total w))],
            Raised OSError)
      else (fst (start_selected ts)
              @ [Log StartingServer, Popen Server (java_command (memory_total w)), StartThread MonitorServer]
              @ fst (wait_for_server (wait_ends w) (snd (start_selected ts))),
            snd (wait_for_server (wait_ends w) (snd (start_selected ts)))))"
  by (simp add: run_selected_def Let_def split: prod.split)

lemma run_server_eq:
  "run_server server_name w =
     (if \<not> dir_exists w then ([Log (DirNotFound server_name)], Returned)
      else if config_raises w
        then (Chdir server_name # release_port w 25565 @ [OpenConfig, Log ConfigError], Returned)
      else (Chdir server_name # release_port w 25565 @ [OpenConfig] @ fst (select_tunnel_service w)
              @ fst (run_selected w (snd (select_tunnel_service w))),
            snd (run_selected w (snd (select_tunnel_service w)))))"
  by (simp add: run_server_def Let_def split: prod.split)

lemmas example_eval =
  run_server_eq run_selected_eq example_world_def select_tunnel_service_def
  get_available_tunnel_services_def construct_def NgrokTunnel_init_def default_auth_token_def
  start_selected_def start_tunnel_def release_port_def wait_for_server_def

section \<open>Teardown of the tunnel\<close>

text \<open>
  Claim C1. Take a run of \<open>run_server\<close> in which a tunnel process was started and
  the wait for the server was entered. Whichever way the wait ends (the server
  exits with any status, a \<open>KeyboardInterrupt\<close>, any other exception), the calls of
  the run contain \<open>tunnel_process.terminate()\<close> exactly once, and that call comes
  after the wait and before \<open>run_server\<close> is left. \<open>run_server\<close> is left by
  returning, except that an exception other than \<open>KeyboardInterrupt\<close> goes on to
  the caller once the tunnel is terminated.
\<close>

theorem tunnel_terminated_once:
  assumes tunnel: "Popen Tunnel cmd \<in> set (fst (run_server server_name w))"
    and wait: "Wait Server \<in> set (fst (run_server server_name w))"
  shows "count_list (fst (run_server server_name w)) (Terminate Tunnel) = 1
       \<and> (\<exists>before after.
             fst (run_server server_name w) = before @ Wait Server # after
           \<and> Terminate Tunnel \<notin> set before
           \<and> count_list after (Terminate Tunnel) = 1)
       \<and> snd (run_server server_name w) =
           (case wait_ends w of WaitRaises e \<Rightarrow> Raised e | _ \<Rightarrow> Returned)"
proof -
  define ts where "ts = snd (select_tunnel_service w)"
  define before where "before = Chdir server_name # release_port w 25565 @ [OpenConfig]
     @ fst (select_tunnel_service w) @ fst (start_selected ts)
     @ [Log StartingServer, Popen Server (java_command (memory_total w)), StartThread MonitorServer]"
  from wait have dir: "dir_exists w" and config: "\<not> config_raises w"
    by (auto simp: run_server_eq release_port_calls split: if_splits)
  from wait dir config have java: "\<not> java_popen_raises w"
    by (auto simp: run_server_eq run_selected_eq release_port_calls select_tunnel_service_calls
        start_selected_calls split: if_splits)
  have run: "run_server server_name w =
      (before @ fst (wait_for_server (wait_ends w) (snd (start_selected ts))),
       snd (wait_for_server (wait_ends w) (snd (start_selected ts))))"
    using dir config java by (simp add: run_server_eq run_selected_eq before_def ts_def)
  have quiet: "Terminate Tunnel \<notin> set before"
    by (simp add: before_def release_port_calls select_tunnel_service_calls start_selected_calls)
  from tunnel dir config java have "\<exists>cmd. Popen Tunnel cmd \<in> set (fst (start_selected ts))"
    by (auto simp: run_server_eq run_selected_eq ts_def release_port_calls select_tunnel_service_calls
        wait_for_server_calls)
  then have handle: "snd (start_selected ts) \<noteq> None" by (simp add: start_selected_handle)
  obtain after where after:
    "fst (wait_for_server (wait_ends w) (snd (start_selected ts))) = Wait Server # after"
    "count_list after (Terminate Tunnel) = 1"
    using wait_for_server_trace [of "wait_ends w" "snd (start_selected ts)"] handle by auto
  from quiet have none: "count_list before (Terminate Tunnel) = 0"
    by (simp add: count_list_0_iff)
  have once: "count_list (fst (run_server server_name w)) (Terminate Tunnel) = 1"
    by (simp add: run after none)
  have split: "\<exists>before after.
             fst (run_server server_name w) = before @ Wait Server # after
           \<and> Terminate Tunnel \<notin> set before
           \<and> count_list after (Terminate Tunnel) = 1"
    using run after quiet by (intro exI [of _ before] exI [of _ after]) simp
  have leaving: "snd (run_server server_name w) =
           (case wait_ends w of WaitRaises e \<Rightarrow> Raised e | _ \<Rightarrow> Returned)"
    by (simp add: run wait_for_server_outcome)
  from once split leaving show ?thesis by blast
qed

text \<open>
  On the example host with the Playit.gg tunnel started: the server exits with
  status 1, the operator interrupts the wait, the wait raises another exception.
\<close>

theorem tunnel_terminated_once_witness:
  "count_list (fst (run_server ''survival'' (example_world\<lparr>wait_ends := Exits 1\<rparr>))) (Terminate Tunnel) = 1
   \<and> snd (run_server ''survival'' (example_world\<lparr>wait_ends := Exits 1\<rparr>)) = Returned
   \<and> count_list (fst (run_server ''survival'' (example_world\<lparr>wait_ends := KeyboardInterrupt\<rparr>))) (Terminate Tunnel) = 1
   \<and> snd (run_server ''survival'' (example_world\<lparr>wait_ends := KeyboardInterrupt\<rparr>)) = Returned
   \<and> count_list (fst (run_server ''survival'' (example_world\<lparr>wait_ends := WaitRaises OSError\<rparr>))) (Terminate Tunnel) = 1
   \<and> snd (run_server ''survival'' (example_world\<lparr>wait_ends := WaitRaises OSError\<rparr>)) = Raised OSError"
proof -
  have started: "Popen Tunnel [''playit'', ''run'']
      \<in> set (fst (run_server ''survival'' (example_world\<lparr>wait_ends := ending\<rparr>)))" for ending
    by (simp add: example_eval)
  have waited: "Wait Server \<in> set (fst (run_server ''survival'' (example_world\<lparr>wait_ends := ending\<rparr>)))"
    for ending
    by (cases ending) (simp_all add: example_eval)
  from tunnel_terminated_once [OF started waited, of "Exits 1"]
    tunnel_terminated_once [OF started waited, of KeyboardInterrupt]
    tunnel_terminated_once [OF started waited, of "WaitRaises OSError"]
  show ?thesis by (simp add: example_world_def)
qed

section \<open>Running without a tunnel\<close>

text \<open>
  Claim C6. With an empty token passed to the constructor and \<open>NGROK_AUTH_TOKEN\<close>
  unset, \<open>NgrokTunnel.start_tunnel\<close> logs the warning and returns \<open>None\<close>, with no
  other call. \<open>run_server\<close>, given that service, goes on after the warning: it
  launches the server, and when the launch succeeds it starts the monitor and
  waits. It starts no tunnel process and terminates none.
\<close>

theorem ngrok_without_token:
  "start_tunnel (NgrokTunnel_init None local_port []) = ([Log NoNgrokToken], None)
   \<and> fst (run_selected w (Some (NgrokTunnel_init None local_port []))) =
       Log NoNgrokToken # Log StartingServer # Popen Server (java_command (memory_total w))
         # (if java_popen_raises w then []
            else StartThread MonitorServer # Wait Server
                   # (case wait_ends w of KeyboardInterrupt \<Rightarrow> [Log StoppingServer] | _ \<Rightarrow> []))
   \<and> run_selected w (Some (NgrokTunnel_init None local_port [])) =
       (Log NoNgrokToken # fst (run_selected w None), snd (run_selected w None))"
proof -
  have warned: "start_tunnel (NgrokTunnel_init None local_port []) = ([Log NoNgrokToken], None)"
    by (simp add: start_tunnel_def NgrokTunnel_init_def)
  have trace: "fst (run_selected w (Some (NgrokTunnel_init None local_port []))) =
       Log NoNgrokToken # Log StartingServer # Popen Server (java_command (memory_total w))
         # (if java_popen_raises w then []
            else StartThread MonitorServer # Wait Server
                   # (case wait_ends w of KeyboardInterrupt \<Rightarrow> [Log StoppingServer] | _ \<Rightarrow> []))"
    by (cases "wait_ends w")
      (simp_all add: run_selected_eq start_selected_def warned wait_for_server_def)
  have same: "run_selected w (Some (NgrokTunnel_init None local_port [])) =
       (Log NoNgrokToken # fst (run_selected w None), snd (run_selected w None))"
    by (simp add: run_selected_eq start_selected_def warned)
  from warned trace same show ?thesis by blast
qed

text \<open>
  Claim C7. When neither \<open>ngrok\<close> nor \<open>playit\<close> is installed,
  \<open>select_tunnel_service\<close> probes for both, logs the warning and the two download
  links, and returns \<open>None\<close>. \<open>run_server\<close>, once the server directory and its
  configuration have been read, then launches the server process and starts no
  tunnel process.
\<close>

theorem no_tunnel_service_installed:
  assumes "\<not> which_ngrok w" and "\<not> which_playit w"
  shows "select_tunnel_service w =
           ([Run [''which'', ''ngrok''], Run [''which'', ''playit''],
             Log NoTunnelServices, Log NgrokDownloadLink, Log PlayitDownloadLink], None)
       \<and> (dir_exists w \<and> \<not> config_raises w \<longrightarrow>
            Popen Server (java_command (memory_total w)) \<in> set (fst (run_server server_name w))
            \<and> (\<forall>cmd. Popen Tunnel cmd \<notin> set (fst (run_server server_name w)))
            \<and> Terminate Tunnel \<notin> set (fst (run_server server_name w)))"
proof -
  have selected: "select_tunnel_service w =
           ([Run [''which'', ''ngrok''], Run [''which'', ''playit''],
             Log NoTunnelServices, Log NgrokDownloadLink, Log PlayitDownloadLink], None)"
    using assms by (simp add: select_tunnel_service_def get_available_tunnel_services_def)
  have "Popen Server (java_command (memory_total w)) \<in> set (fst (run_server server_name w))
            \<and> (\<forall>cmd. Popen Tunnel cmd \<notin> set (fst (run_server server_name w)))
            \<and> Terminate Tunnel \<notin> set (fst (run_server server_name w))"
    if "dir_exists w" "\<not> config_raises w"
    using that
    by (cases "wait_ends w")
      (simp_all add: run_server_eq run_selected_eq selected start_selected_def release_port_def
        wait_for_server_def)
  with selected show ?thesis by blast
qed

theorem no_tunnel_service_installed_witness:
  "select_tunnel_service (example_world\<lparr>which_ngrok := False, which_playit := False\<rparr>) =
           ([Run [''which'', ''ngrok''], Run [''which'', ''playit''],
             Log NoTunnelServices, Log NgrokDownloadLink, Log PlayitDownloadLink], None)
   \<and> Popen Server (java_command (16 * 1024 ^ 3))
        \<in> set (fst (run_server ''survival'' (example_world\<lparr>which_ngrok := False, which_playit := False\<rparr>)))
   \<and> Popen Tunnel [''playit'', ''run'']
        \<notin> set (fst (run_server ''survival'' (example_world\<lparr>which_ngrok := False, which_playit := False\<rparr>)))"
  using no_tunnel_service_installed
    [of "example_world\<lparr>which_ngrok := False, which_playit := False\<rparr>" "''survival''"]
  by (simp add: example_world_def)

section \<open>The Ngrok token\<close>

text \<open>
  Claim C8, as amended. The default token is a non-empty string written in the
  program, so an \<open>NgrokTunnel\<close> built with the default arguments holds it, whatever
  the environment, and its \<open>start_tunnel\<close> does not take the missing-token branch.
  That branch is taken exactly when the token passed is empty and
  \<open>NGROK_AUTH_TOKEN\<close> is unset or set to the empty string.
\<close>

theorem missing_token_branch:
  "default_auth_token \<noteq> []
   \<and> construct env NgrokTunnel_class local_port = NgrokTunnel local_port (Some default_auth_token)
   \<and> start_tunnel (construct env NgrokTunnel_class local_port) \<noteq> ([Log NoNgrokToken], None)
   \<and> (start_tunnel (NgrokTunnel_init env local_port auth_token) = ([Log NoNgrokToken], None)
        \<longleftrightarrow> auth_token = [] \<and> (env = None \<or> env = Some []))"
proof -
  have hard: "default_auth_token \<noteq> []" by (simp add: default_auth_token_def)
  then have built: "construct env NgrokTunnel_class local_port
      = NgrokTunnel local_port (Some default_auth_token)"
    by (simp add: construct_def NgrokTunnel_init_def)
  from hard have started: "start_tunnel (construct env NgrokTunnel_class local_port)
      \<noteq> ([Log NoNgrokToken], None)"
    by (simp add: built start_tunnel_def)
  have branch: "start_tunnel (NgrokTunnel_init env local_port auth_token) = ([Log NoNgrokToken], None)
        \<longleftrightarrow> auth_token = [] \<and> (env = None \<or> env = Some [])"
    by (cases env) (auto simp: start_tunnel_def NgrokTunnel_init_def)
  from hard built started branch show ?thesis by blast
qed

theorem missing_token_branch_witness:
  "start_tunnel (NgrokTunnel_init None 25565 []) = ([Log NoNgrokToken], None)
   \<and> start_tunnel (NgrokTunnel_init (Some ''token-from-env'') 25565 []) \<noteq> ([Log NoNgrokToken], None)"
  using missing_token_branch [of None 25565 "[]"]
    missing_token_branch [of "Some ''token-from-env''" 25565 "[]"]
  by simp

text \<open>
  Claim C8, as stated, fails: with \<open>NGROK_AUTH_TOKEN\<close> set, to the empty string, and
  an empty token passed, the missing-token branch is taken.
\<close>

theorem missing_token_branch_env_set:
  "Some [] \<noteq> (None :: string option)
   \<and> start_tunnel (NgrokTunnel_init (Some []) 25565 []) = ([Log NoNgrokToken], None)"
  by (simp add: start_tunnel_def NgrokTunnel_init_def)

section \<open>The early returns of \<open>run_server\<close>\<close>

text \<open>
  Claim C10. When the server directory does not exist, or reading
  \<open>server_config.json\<close> raises, \<open>run_server\<close> returns and has made no \<open>Popen\<close>
  call: neither a tunnel process nor a server process is started. In the first case
  its only call is the log of the missing directory.
\<close>

theorem run_server_early_return:
  assumes "\<not> dir_exists w \<or> config_raises w"
  shows "snd (run_server server_name w) = Returned
       \<and> (\<forall>p cmd. Popen p cmd \<notin> set (fst (run_server server_name w)))
       \<and> (\<forall>p. Wait p \<notin> set (fst (run_server server_name w)))
       \<and> (\<not> dir_exists w \<longrightarrow> fst (run_server server_name w) = [Log (DirNotFound server_name)])
       \<and> (dir_exists w \<longrightarrow>
            fst (run_server server_name w) =
              Chdir server_name # release_port w 25565 @ [OpenConfig, Log ConfigError])"
  using assms by (auto simp: run_server_eq release_port_def)

theorem run_server_early_return_witness:
  "run_server ''survival'' (example_world\<lparr>dir_exists := False\<rparr>) = ([Log (DirNotFound ''survival'')], Returned)
   \<and> run_server ''survival'' (example_world\<lparr>config_raises := True\<rparr>) =
       ([Chdir ''survival'', RunShell ''fuser -k 25565/tcp'', Log (PortReleased 25565),
         OpenConfig, Log ConfigError], Returned)"
proof -
  have missing: "\<not> dir_exists (example_world\<lparr>dir_exists := False\<rparr>)
      \<or> config_raises (example_world\<lparr>dir_exists := False\<rparr>)"
    by simp
  have unreadable: "\<not> dir_exists (example_world\<lparr>config_raises := True\<rparr>)
      \<or> config_raises (example_world\<lparr>config_raises := True\<rparr>)"
    by simp
  have port: "py_str 25565 = ''25565''"
    by (simp add: py_str.simps digit_char_def)
  from run_server_early_return [OF missing, of "''survival''"]
    run_server_early_return [OF unreadable, of "''survival''"]
  show ?thesis
    by (simp add: example_world_def release_port_def port prod_eq_iff)
qed

end
